theory Spec2Isabelle
  imports Main "HOL-Library.Sublist"
begin

section \<open>The entity resource of the Umbraco back office client\<close>

text \<open>
  The source is \<^verbatim>\<open>src/Umbraco.Web.UI.Client/src/common/resources/entity.resource.js\<close>:
  the factory \<^verbatim>\<open>entityResource($q, $http, umbRequestHelper)\<close> returns an object of six
  methods. Each method builds the arguments of one \<^verbatim>\<open>umbRequestHelper.getApiUrl\<close>
  call, hands the URL to \<^verbatim>\<open>$http.get\<close> and hands the pending call together with a
  failure message to \<^verbatim>\<open>umbRequestHelper.resourcePromise\<close>.
\<close>

subsection \<open>JavaScript values\<close>

text \<open>
  The arguments of the methods are untyped JavaScript values. A missing argument is
  \<^verbatim>\<open>undefined\<close>. Numbers are the integer-valued ones (the documentation types an id as
  \<^verbatim>\<open>Int\<close>), of a magnitude that JavaScript writes in plain digits; an object is the list
  of its own properties in insertion order. The \<^verbatim>\<open>ids\<close> argument of \<^verbatim>\<open>getByIds\<close>, documented
  as \<^verbatim>\<open>Array\<close>, is the list of the array's elements.
\<close>

datatype jsval =
    JUndefined
  | JNull
  | JBool bool
  | JNum int
  | JStr string
  | JArr "jsval list"
  | JObj "(string \<times> jsval) list"

subsection \<open>String coercion\<close>

text \<open>
  \<^verbatim>\<open>"ids=" + item\<close> and \<^verbatim>\<open>'...' + id\<close> have a string on the left, so the right operand
  is coerced by JavaScript's \<^verbatim>\<open>ToString\<close>: \<^verbatim>\<open>undefined\<close> gives the text
  \<^verbatim>\<open>undefined\<close>, an integer its decimal digits, an array the comma-joined coercions of
  its elements (where \<^verbatim>\<open>null\<close> and \<^verbatim>\<open>undefined\<close> elements give the empty text), a plain
  object \<^verbatim>\<open>[object Object]\<close>.
\<close>

definition digit_char :: "nat \<Rightarrow> char" where
  "digit_char d = ''0123456789'' ! d"

fun nat_to_string :: "nat \<Rightarrow> string" where
  "nat_to_string n =
     (if n < 10 then [digit_char n]
      else nat_to_string (n div 10) @ [digit_char (n mod 10)])"

definition int_to_string :: "int \<Rightarrow> string" where
  "int_to_string i =
     (if i < 0 then CHR ''-'' # nat_to_string (nat (- i)) else nat_to_string (nat i))"

fun join :: "string list \<Rightarrow> string \<Rightarrow> string" where
  "join [] sep = ''''"
| "join [s] sep = s"
| "join (s # t # rest) sep = s @ sep @ join (t # rest) sep"

fun js_to_string :: "jsval \<Rightarrow> string" where
  "js_to_string JUndefined = ''undefined''"
| "js_to_string JNull = ''null''"
| "js_to_string (JBool b) = (if b then ''true'' else ''false'')"
| "js_to_string (JNum i) = int_to_string i"
| "js_to_string (JStr s) = s"
| "js_to_string (JArr xs) =
     join (map (\<lambda>x. if x = JUndefined \<or> x = JNull then '''' else js_to_string x) xs) '',''"
| "js_to_string (JObj ps) = ''[object Object]''"

subsection \<open>The injected collaborators\<close>

text \<open>
  \<^verbatim>\<open>$http\<close> and \<^verbatim>\<open>umbRequestHelper\<close> are parameters of the factory; their code is not
  part of the file. They are modelled as parameters too: records of functions over an
  arbitrary world \<open>'w\<close> that every call may read and change (the network, the helper's
  configuration), an arbitrary type \<open>'u\<close> of URLs, \<open>'c\<close> of pending HTTP calls and \<open>'p\<close> of
  returned promises. \<^verbatim>\<open>$q\<close> is injected and never used.
\<close>

record ('w, 'u, 'c, 'p) umbRequestHelper =
  getApiUrl :: "string \<Rightarrow> string \<Rightarrow> jsval \<Rightarrow> 'w \<Rightarrow> 'u \<times> 'w"
  resourcePromise :: "'c \<Rightarrow> string \<Rightarrow> 'w \<Rightarrow> 'p \<times> 'w"

record ('w, 'u, 'c) http =
  get :: "'u \<Rightarrow> 'w \<Rightarrow> 'c \<times> 'w"

subsection \<open>The six methods\<close>

text \<open>
  JavaScript evaluates the arguments of a call from left to right before the call, so
  \<^verbatim>\<open>getApiUrl\<close> runs first, \<^verbatim>\<open>$http.get\<close> second, the message is concatenated, and
  \<^verbatim>\<open>resourcePromise\<close> runs last. The parameter literal \<^verbatim>\<open>[{ id: id, type: type }]\<close> is an
  array of one object with two properties; \<^verbatim>\<open>[{id: id}, {type: type}]\<close> is an array of
  two objects with one property each.
\<close>

definition getById ::
  "('w, 'u, 'c, 'p) umbRequestHelper \<Rightarrow> ('w, 'u, 'c) http \<Rightarrow> jsval \<Rightarrow> jsval \<Rightarrow> 'w \<Rightarrow> 'p \<times> 'w"
where
  "getById umbRequestHelper http id' type w0 =
     (let (url, w1) = getApiUrl umbRequestHelper
                        ''entityApiBaseUrl''
                        ''GetById''
                        (JArr [JObj [(''id'', id'), (''type'', type)]]) w0;
          (call, w2) = get http url w1
      in resourcePromise umbRequestHelper call
           (''Failed to retreive entity data for id '' @ js_to_string id') w2)"

text \<open>
  \<^verbatim>\<open>_.each(ids, f)\<close> of the underscore library calls \<^verbatim>\<open>f\<close> on the elements of the array
  \<^verbatim>\<open>ids\<close> from first to last. The callback of \<^verbatim>\<open>getByIds\<close> assigns to the local variable
  \<^verbatim>\<open>query\<close> of the enclosing call, which is the state passed through the loop.
\<close>

primrec each :: "'a list \<Rightarrow> ('a \<Rightarrow> 's \<Rightarrow> 's) \<Rightarrow> 's \<Rightarrow> 's" where
  "each [] f s = s"
| "each (x # xs) f s = each xs f (f x s)"

definition getByIds ::
  "('w, 'u, 'c, 'p) umbRequestHelper \<Rightarrow> ('w, 'u, 'c) http \<Rightarrow> jsval list \<Rightarrow> jsval \<Rightarrow> 'w \<Rightarrow> 'p \<times> 'w"
where
  "getByIds umbRequestHelper http ids type w0 =
     (let query = '''';
          query = each ids (\<lambda>item query. query @ ((''ids='' @ js_to_string item) @ ''&'')) query;
          query = query @ (''type='' @ js_to_string type);
          (url, w1) = getApiUrl umbRequestHelper
                        ''entityApiBaseUrl''
                        ''GetByIds''
                        (JStr query) w0;
          (call, w2) = get http url w1
      in resourcePromise umbRequestHelper call
           (''Failed to retreive entity data for ids '' @ js_to_string (JArr ids)) w2)"

definition getAll ::
  "('w, 'u, 'c, 'p) umbRequestHelper \<Rightarrow> ('w, 'u, 'c) http \<Rightarrow> jsval \<Rightarrow> 'w \<Rightarrow> 'p \<times> 'w"
where
  "getAll umbRequestHelper http type w0 =
     (let (url, w1) = getApiUrl umbRequestHelper
                        ''entityApiBaseUrl''
                        ''GetAll''
                        (JArr [JObj [(''type'', type)]]) w0;
          (call, w2) = get http url w1
      in resourcePromise umbRequestHelper call
           (''Failed to retreive entity data for type '' @ js_to_string type) w2)"

definition getAncestors ::
  "('w, 'u, 'c, 'p) umbRequestHelper \<Rightarrow> ('w, 'u, 'c) http \<Rightarrow> jsval \<Rightarrow> jsval \<Rightarrow> 'w \<Rightarrow> 'p \<times> 'w"
where
  "getAncestors umbRequestHelper http id' type w0 =
     (let (url, w1) = getApiUrl umbRequestHelper
                        ''entityApiBaseUrl''
                        ''GetAncestors''
                        (JArr [JObj [(''id'', id')], JObj [(''type'', type)]]) w0;
          (call, w2) = get http url w1
      in resourcePromise umbRequestHelper call
           (''Failed to retreive ancestor data for id '' @ js_to_string id') w2)"

definition getChildren ::
  "('w, 'u, 'c, 'p) umbRequestHelper \<Rightarrow> ('w, 'u, 'c) http \<Rightarrow> jsval \<Rightarrow> jsval \<Rightarrow> 'w \<Rightarrow> 'p \<times> 'w"
where
  "getChildren umbRequestHelper http id' type w0 =
     (let (url, w1) = getApiUrl umbRequestHelper
                        ''entityApiBaseUrl''
                        ''GetChildren''
                        (JArr [JObj [(''id'', id')], JObj [(''type'', type)]]) w0;
          (call, w2) = get http url w1
      in resourcePromise umbRequestHelper call
           (''Failed to retreive child data for id '' @ js_to_string id') w2)"

definition search ::
  "('w, 'u, 'c, 'p) umbRequestHelper \<Rightarrow> ('w, 'u, 'c) http \<Rightarrow> jsval \<Rightarrow> jsval \<Rightarrow> 'w \<Rightarrow> 'p \<times> 'w"
where
  "search umbRequestHelper http query type w0 =
     (let (url, w1) = getApiUrl umbRequestHelper
                        ''entityApiBaseUrl''
                        ''SearchMedia''
                        (JArr [JObj [(''query'', query)], JObj [(''type'', type)]]) w0;
          (call, w2) = get http url w1
      in resourcePromise umbRequestHelper call
           (''Failed to retreive entity data for query '' @ js_to_string query) w2)"

subsection \<open>Observing the constructed request\<close>

text \<open>
  A request is what a method hands to its collaborators: the three arguments of
  \<^verbatim>\<open>getApiUrl\<close> and the failure message of \<^verbatim>\<open>resourcePromise\<close>.
\<close>

record request =
  baseUrlKey :: string
  action :: string
  params :: jsval
  failureMessage :: string

text \<open>
  The recording collaborators return what they are given: the URL is the triple of
  \<^verbatim>\<open>getApiUrl\<close>'s arguments, the pending call is the URL, and the promise is the request
  made of that URL and the message. They leave the world alone.
\<close>

definition recordingHelper ::
  "('w, string \<times> string \<times> jsval, string \<times> string \<times> jsval, request) umbRequestHelper"
where
  "recordingHelper =
     \<lparr> getApiUrl = (\<lambda>k a p w. ((k, a, p), w)),
       resourcePromise = (\<lambda>(k, a, p) m w.
         (\<lparr> baseUrlKey = k, action = a, params = p, failureMessage = m \<rparr>, w)) \<rparr>"

definition recordingHttp :: "('w, 'u, 'u) http" where
  "recordingHttp = \<lparr> get = (\<lambda>url w. (url, w)) \<rparr>"

definition recorded :: "(unit \<Rightarrow> 'a \<times> unit) \<Rightarrow> 'a" where
  "recorded m = fst (m ())"

text \<open>
  The calling pattern the six methods share, for any collaborators: one \<^verbatim>\<open>getApiUrl\<close>
  call, one \<^verbatim>\<open>$http.get\<close> call on its result, one \<^verbatim>\<open>resourcePromise\<close> call on that
  result, the world passed from each to the next.
\<close>

definition issue ::
  "('w, 'u, 'c, 'p) umbRequestHelper \<Rightarrow> ('w, 'u, 'c) http \<Rightarrow> request \<Rightarrow> 'w \<Rightarrow> 'p \<times> 'w"
where
  "issue umbRequestHelper http r w0 =
     (let (url, w1) = getApiUrl umbRequestHelper (baseUrlKey r) (action r) (params r) w0;
          (call, w2) = get http url w1
      in resourcePromise umbRequestHelper call (failureMessage r) w2)"

text \<open>
  The parameters of a request that passes an array of objects: the properties of the
  objects in order, their names, and the value read under a name (\<^verbatim>\<open>undefined\<close> when no
  object has the property, as a JavaScript property read gives). The parameters of a
  request that passes a ready-made query string: that string.
\<close>

fun properties :: "jsval \<Rightarrow> (string \<times> jsval) list" where
  "properties (JObj ps) = ps"
| "properties v = []"

fun param_pairs :: "jsval \<Rightarrow> (string \<times> jsval) list" where
  "param_pairs (JArr objs) = concat (map properties objs)"
| "param_pairs v = []"

fun query_string :: "jsval \<Rightarrow> string" where
  "query_string (JStr q) = q"
| "query_string v = ''''"

definition param_names :: "jsval \<Rightarrow> string list" where
  "param_names p = map fst (param_pairs p)"

definition param_value :: "jsval \<Rightarrow> string \<Rightarrow> jsval" where
  "param_value p k = (case map_of (param_pairs p) k of None \<Rightarrow> JUndefined | Some v \<Rightarrow> v)"

text \<open>
  The segments of a query string: the pieces between the separators, as JavaScript's
  \<^verbatim>\<open>split\<close> gives them.
\<close>

fun split_on :: "char \<Rightarrow> string \<Rightarrow> string list" where
  "split_on c [] = [[]]"
| "split_on c (x # xs) =
     (if x = c then [] # split_on c xs
      else (case split_on c xs of [] \<Rightarrow> [[x]] | s # ss \<Rightarrow> (x # s) # ss))"

subsection \<open>The request helper's promise\<close>

text \<open>
  A pending HTTP call is modelled by its outcome: the parsed body, or the backend's
  diagnostic detail when the call fails. A promise is modelled by how it settles: resolved
  with a value, or rejected with a message and the detail.
\<close>

datatype 'a http_outcome = HttpSuccess 'a | HttpFailure string

datatype 'a promise = Resolved 'a | Rejected string string

text \<open>
  Modelled from the spec: \<^verbatim>\<open>umbRequestHelper.resourcePromise\<close>, whose code is not in the
  file. The spec gives its contract: it "wraps a pending HTTP call, parses JSON body into
  the declared result type, and rejects with an error carrying \<^verbatim>\<open>failureMessage\<close> plus
  backend diagnostic detail on non-2xx response or transport failure".
\<close>

definition specResourcePromise :: "'a http_outcome \<Rightarrow> string \<Rightarrow> 'w \<Rightarrow> 'a promise \<times> 'w" where
  "specResourcePromise call message w =
     (case call of
        HttpSuccess body \<Rightarrow> (Resolved body, w)
      | HttpFailure detail \<Rightarrow> (Rejected message detail, w))"

definition specHelper ::
  "(string \<Rightarrow> string \<Rightarrow> jsval \<Rightarrow> 'w \<Rightarrow> 'u \<times> 'w) \<Rightarrow> ('w, 'u, 'a http_outcome, 'a promise) umbRequestHelper"
where
  "specHelper urlBuilder = \<lparr> getApiUrl = urlBuilder, resourcePromise = specResourcePromise \<rparr>"

text \<open>A promise is rejected with a message that contains a given text.\<close>

fun rejected_with :: "'a promise \<Rightarrow> string \<Rightarrow> bool" where
  "rejected_with (Resolved body) ctx = False"
| "rejected_with (Rejected message detail) ctx = sublist ctx message"

text \<open>
  A method run against the recording collaborators constructs the same request in every
  world and leaves the world as it found it.
\<close>

definition same_request_in_any_world :: "('w \<Rightarrow> request \<times> 'w) \<Rightarrow> bool" where
  "same_request_in_any_world m = (\<forall>w w'. fst (m w) = fst (m w') \<and> snd (m w) = w)"

text \<open>
  Collaborators whose world is the list of the base URL keys that the URL builder has
  been asked for, oldest first: every \<^verbatim>\<open>getApiUrl\<close> call appends its first argument.
\<close>

definition keyLoggingHelper :: "(string list, unit, unit, unit) umbRequestHelper" where
  "keyLoggingHelper =
     \<lparr> getApiUrl = (\<lambda>k a p keys. ((), keys @ [k])),
       resourcePromise = (\<lambda>call m keys. ((), keys)) \<rparr>"

definition silentHttp :: "('w, unit, unit) http" where
  "silentHttp = \<lparr> get = (\<lambda>url w. ((), w)) \<rparr>"

text \<open>
  The outcome of the HTTP call that a method makes: the URL builder is asked for the URL
  of the given key, action and parameters in the world of the invocation, and
  \<^verbatim>\<open>$http.get\<close> is called on that URL in the world the URL builder leaves.
\<close>

definition httpOutcome ::
  "('w, 'u, 'c, 'p) umbRequestHelper \<Rightarrow> ('w, 'u, 'c) http \<Rightarrow> string \<Rightarrow> string \<Rightarrow> jsval \<Rightarrow> 'w \<Rightarrow> 'c"
where
  "httpOutcome umbRequestHelper http k a p w0 =
     (let (url, w1) = getApiUrl umbRequestHelper k a p w0
      in fst (get http url w1))"

text \<open>
  Example collaborators: a URL builder that joins the base URL key and the action name,
  an HTTP service whose world tells whether the network is up and whose calls fail only
  while it is down, and an HTTP service that fails on the URL of one action only.
\<close>

definition plainUrl :: "string \<Rightarrow> string \<Rightarrow> jsval \<Rightarrow> 'w \<Rightarrow> string \<times> 'w" where
  "plainUrl k a p w = (k @ ''/'' @ a, w)"

definition offlineHttp :: "(bool, string, string http_outcome) http" where
  "offlineHttp =
     \<lparr> get = (\<lambda>url online.
         (if online then HttpSuccess ''[]'' else HttpFailure ''network down'', online)) \<rparr>"

definition brokenChildrenHttp :: "(unit, string, string http_outcome) http" where
  "brokenChildrenHttp =
     \<lparr> get = (\<lambda>url w.
         (if url = ''entityApiBaseUrl/GetChildren''
          then HttpFailure ''500 Internal Server Error'' else HttpSuccess ''[]'', w)) \<rparr>"

section \<open>Properties\<close>

subsection \<open>Auxiliary facts\<close>

declare nat_to_string.simps [simp del]

lemma each_query:
  "each ids (\<lambda>item query. query @ ((''ids='' @ js_to_string item) @ ''&'')) q =
     q @ concat (map (\<lambda>item. ''ids='' @ js_to_string item @ ''&'') ids)"
  by (induction ids arbitrary: q) simp_all

lemma issue_recording: "issue recordingHelper recordingHttp r w = (r, w)"
  by (simp add: issue_def recordingHelper_def recordingHttp_def)

lemma recorded_issue: "recorded (issue recordingHelper recordingHttp r) = r"
  by (simp add: recorded_def issue_recording)

text \<open>Each method is the shared calling pattern at a request built from its arguments.\<close>

lemma getById_issue:
  "getById h http id' type =
     issue h http \<lparr> baseUrlKey = ''entityApiBaseUrl'', action = ''GetById'',
       params = JArr [JObj [(''id'', id'), (''type'', type)]],
       failureMessage = ''Failed to retreive entity data for id '' @ js_to_string id' \<rparr>"
  unfolding getById_def fun_eq_iff
  by (simp add: issue_def del: js_to_string.simps)

lemma getByIds_issue:
  "getByIds h http ids type =
     issue h http \<lparr> baseUrlKey = ''entityApiBaseUrl'', action = ''GetByIds'',
       params = JStr (concat (map (\<lambda>item. ''ids='' @ js_to_string item @ ''&'') ids)
                        @ ''type='' @ js_to_string type),
       failureMessage = ''Failed to retreive entity data for ids '' @ js_to_string (JArr ids) \<rparr>"
  unfolding getByIds_def Let_def each_query fun_eq_iff
  by (simp add: issue_def del: js_to_string.simps)

lemma getAll_issue:
  "getAll h http type =
     issue h http \<lparr> baseUrlKey = ''entityApiBaseUrl'', action = ''GetAll'',
       params = JArr [JObj [(''type'', type)]],
       failureMessage = ''Failed to retreive entity data for type '' @ js_to_string type \<rparr>"
  unfolding getAll_def fun_eq_iff
  by (simp add: issue_def del: js_to_string.simps)

lemma getAncestors_issue:
  "getAncestors h http id' type =
     issue h http \<lparr> baseUrlKey = ''entityApiBaseUrl'', action = ''GetAncestors'',
       params = JArr [JObj [(''id'', id')], JObj [(''type'', type)]],
       failureMessage = ''Failed to retreive ancestor data for id '' @ js_to_string id' \<rparr>"
  unfolding getAncestors_def fun_eq_iff
  by (simp add: issue_def del: js_to_string.simps)

lemma getChildren_issue:
  "getChildren h http id' type =
     issue h http \<lparr> baseUrlKey = ''entityApiBaseUrl'', action = ''GetChildren'',
       params = JArr [JObj [(''id'', id')], JObj [(''type'', type)]],
       failureMessage = ''Failed to retreive child data for id '' @ js_to_string id' \<rparr>"
  unfolding getChildren_def fun_eq_iff
  by (simp add: issue_def del: js_to_string.simps)

lemma search_issue:
  "search h http query type =
     issue h http \<lparr> baseUrlKey = ''entityApiBaseUrl'', action = ''SearchMedia'',
       params = JArr [JObj [(''query'', query)], JObj [(''type'', type)]],
       failureMessage = ''Failed to retreive entity data for query '' @ js_to_string query \<rparr>"
  unfolding search_def fun_eq_iff
  by (simp add: issue_def del: js_to_string.simps)

text \<open>Splitting at a separator that the segments do not contain gives the segments back.\<close>

lemma split_on_free: "c \<notin> set s \<Longrightarrow> split_on c s = [s]"
  by (induction s) (auto split: list.splits)

lemma split_on_segment: "c \<notin> set s \<Longrightarrow> split_on c (s @ c # rest) = s # split_on c rest"
  by (induction s) (auto split: list.splits)

lemma split_on_segments:
  "\<forall>s \<in> set segs. c \<notin> set s \<Longrightarrow> c \<notin> set final \<Longrightarrow>
     split_on c (concat (map (\<lambda>s. s @ [c]) segs) @ final) = segs @ [final]"
  by (induction segs) (simp_all add: split_on_free split_on_segment)

lemma getByIds_query:
  "query_string (params (recorded (getByIds recordingHelper recordingHttp ids type))) =
     concat (map (\<lambda>item. ''ids='' @ js_to_string item @ ''&'') ids) @ ''type='' @ js_to_string type"
  by (simp only: getByIds_issue recorded_issue request.simps query_string.simps)

text \<open>What the recording collaborators record for each method.\<close>

lemma recorded_getById:
  "recorded (getById recordingHelper recordingHttp id' type) =
     \<lparr> baseUrlKey = ''entityApiBaseUrl'', action = ''GetById'',
       params = JArr [JObj [(''id'', id'), (''type'', type)]],
       failureMessage = ''Failed to retreive entity data for id '' @ js_to_string id' \<rparr>"
  by (simp only: getById_issue recorded_issue)

lemma recorded_getByIds:
  "recorded (getByIds recordingHelper recordingHttp ids type) =
     \<lparr> baseUrlKey = ''entityApiBaseUrl'', action = ''GetByIds'',
       params = JStr (concat (map (\<lambda>item. ''ids='' @ js_to_string item @ ''&'') ids)
                        @ ''type='' @ js_to_string type),
       failureMessage = ''Failed to retreive entity data for ids '' @ js_to_string (JArr ids) \<rparr>"
  by (simp only: getByIds_issue recorded_issue)

lemma recorded_getAll:
  "recorded (getAll recordingHelper recordingHttp type) =
     \<lparr> baseUrlKey = ''entityApiBaseUrl'', action = ''GetAll'',
       params = JArr [JObj [(''type'', type)]],
       failureMessage = ''Failed to retreive entity data for type '' @ js_to_string type \<rparr>"
  by (simp only: getAll_issue recorded_issue)

lemma recorded_getAncestors:
  "recorded (getAncestors recordingHelper recordingHttp id' type) =
     \<lparr> baseUrlKey = ''entityApiBaseUrl'', action = ''GetAncestors'',
       params = JArr [JObj [(''id'', id')], JObj [(''type'', type)]],
       failureMessage = ''Failed to retreive ancestor data for id '' @ js_to_string id' \<rparr>"
  by (simp only: getAncestors_issue recorded_issue)

lemma recorded_getChildren:
  "recorded (getChildren recordingHelper recordingHttp id' type) =
     \<lparr> baseUrlKey = ''entityApiBaseUrl'', action = ''GetChildren'',
       params = JArr [JObj [(''id'', id')], JObj [(''type'', type)]],
       failureMessage = ''Failed to retreive child data for id '' @ js_to_string id' \<rparr>"
  by (simp only: getChildren_issue recorded_issue)

lemma recorded_search:
  "recorded (search recordingHelper recordingHttp query type) =
     \<lparr> baseUrlKey = ''entityApiBaseUrl'', action = ''SearchMedia'',
       params = JArr [JObj [(''query'', query)], JObj [(''type'', type)]],
       failureMessage = ''Failed to retreive entity data for query '' @ js_to_string query \<rparr>"
  by (simp only: search_issue recorded_issue)

lemma issue_keyLogging: "snd (issue keyLoggingHelper silentHttp r keys) = keys @ [baseUrlKey r]"
  by (simp add: issue_def keyLoggingHelper_def silentHttp_def)

lemma same_request_issue: "same_request_in_any_world (issue recordingHelper recordingHttp r)"
  by (simp add: same_request_in_any_world_def issue_recording)

text \<open>
  With the promise of the spec, when the HTTP call of the calling pattern fails, the
  pattern ends in a rejection that carries the failure message of the request.
\<close>

lemma issue_transport_failure:
  assumes "httpOutcome (specHelper urlBuilder) http (baseUrlKey r) (action r) (params r) w =
             HttpFailure detail"
  shows "fst (issue (specHelper urlBuilder) http r w) = Rejected (failureMessage r) detail"
proof -
  obtain url w1 where u: "urlBuilder (baseUrlKey r) (action r) (params r) w = (url, w1)"
    by (cases "urlBuilder (baseUrlKey r) (action r) (params r) w")
  obtain call w2 where c: "get http url w1 = (call, w2)"
    by (cases "get http url w1")
  from assms u c have "call = HttpFailure detail"
    by (simp add: httpOutcome_def specHelper_def)
  with u c show ?thesis
    by (simp add: issue_def specHelper_def specResourcePromise_def)
qed

lemma issue_rejected:
  assumes "httpOutcome (specHelper urlBuilder) http k a p w = HttpFailure detail"
  shows "fst (issue (specHelper urlBuilder) http
            \<lparr> baseUrlKey = k, action = a, params = p, failureMessage = m \<rparr> w) =
         Rejected m detail"
  using issue_transport_failure
    [of urlBuilder http "\<lparr> baseUrlKey = k, action = a, params = p, failureMessage = m \<rparr>" w detail]
    assms
  by simp

lemma issue_rejected_with:
  assumes "httpOutcome (specHelper urlBuilder) http k a p w = HttpFailure detail"
  shows "rejected_with (fst (issue (specHelper urlBuilder) http
            \<lparr> baseUrlKey = k, action = a, params = p, failureMessage = pre @ ctx \<rparr> w)) ctx"
  unfolding issue_rejected [OF assms] by simp

subsection \<open>The query string of \<^verbatim>\<open>getByIds\<close>\<close>

text \<open>
  C1. For every non-empty sequence of ids and every type value, the query string that
  \<^verbatim>\<open>getByIds\<close> passes to the URL builder is the concatenation, in input order, of one
  \<^verbatim>\<open>ids=<value>&\<close> per element, followed by one \<^verbatim>\<open>type=<value>\<close>, where a value is the
  string coercion of the element or of the type. Where no value contains the separator
  \<^verbatim>\<open>&\<close>, the segments between the separators are exactly one \<^verbatim>\<open>ids=<value>\<close> per element,
  in input order, followed by the single \<^verbatim>\<open>type=<value>\<close>.
\<close>

theorem getByIds_query_segments:
  assumes "ids \<noteq> []"
  shows "params (recorded (getByIds recordingHelper recordingHttp ids type)) =
           JStr (concat (map (\<lambda>item. ''ids='' @ js_to_string item @ ''&'') ids)
                 @ ''type='' @ js_to_string type)
         \<and> ((\<forall>v \<in> set (type # ids). CHR ''&'' \<notin> set (js_to_string v)) \<longrightarrow>
              split_on CHR ''&''
                (query_string (params (recorded (getByIds recordingHelper recordingHttp ids type)))) =
              map (\<lambda>item. ''ids='' @ js_to_string item) ids @ [''type='' @ js_to_string type])"
proof (intro conjI impI)
  show "params (recorded (getByIds recordingHelper recordingHttp ids type)) =
           JStr (concat (map (\<lambda>item. ''ids='' @ js_to_string item @ ''&'') ids)
                 @ ''type='' @ js_to_string type)"
    by (simp only: getByIds_issue recorded_issue request.simps)
next
  assume free: "\<forall>v \<in> set (type # ids). CHR ''&'' \<notin> set (js_to_string v)"
  let ?segs = "map (\<lambda>item. ''ids='' @ js_to_string item) ids"
  have segs: "\<forall>s \<in> set ?segs. CHR ''&'' \<notin> set s"
    using free by (auto simp del: js_to_string.simps)
  have final: "CHR ''&'' \<notin> set (''type='' @ js_to_string type)"
    using free by (simp del: js_to_string.simps)
  have shape: "concat (map (\<lambda>item. ''ids='' @ js_to_string item @ ''&'') ids) =
               concat (map (\<lambda>s. s @ [CHR ''&'']) ?segs)"
    by (simp add: comp_def del: js_to_string.simps)
  show "split_on CHR ''&''
          (query_string (params (recorded (getByIds recordingHelper recordingHttp ids type)))) =
        ?segs @ [''type='' @ js_to_string type]"
    unfolding getByIds_query shape
    using split_on_segments [OF segs final] .
qed

theorem getByIds_query_segments_witness:
  "[JNum 1234, JNum 2526, JNum 28262] \<noteq> []
   \<and> params (recorded (getByIds recordingHelper recordingHttp
        [JNum 1234, JNum 2526, JNum 28262] (JStr ''Template''))) =
       JStr ''ids=1234&ids=2526&ids=28262&type=Template''
   \<and> split_on CHR ''&'' (query_string (params (recorded (getByIds recordingHelper recordingHttp
        [JNum 1234, JNum 2526, JNum 28262] (JStr ''Template''))))) =
       [''ids=1234'', ''ids=2526'', ''ids=28262'', ''type=Template'']"
  using getByIds_query_segments [of "[JNum 1234, JNum 2526, JNum 28262]" "JStr ''Template''"]
  by (simp add: int_to_string_def nat_to_string.simps digit_char_def)

text \<open>
  C8. With an empty sequence of ids the query string that \<^verbatim>\<open>getByIds\<close> constructs is
  \<^verbatim>\<open>type=\<close> followed by the string coercion of the type and nothing else: the loop adds
  no \<^verbatim>\<open>ids=\<close> segment, so the string does not start with one, and where the type value
  contains no separator the only segment is the type segment.
\<close>

theorem getByIds_empty_query:
  "params (recorded (getByIds recordingHelper recordingHttp [] type)) =
     JStr (''type='' @ js_to_string type)
   \<and> \<not> prefix ''ids=''
         (query_string (params (recorded (getByIds recordingHelper recordingHttp [] type))))
   \<and> (CHR ''&'' \<notin> set (js_to_string type) \<longrightarrow>
        split_on CHR ''&''
          (query_string (params (recorded (getByIds recordingHelper recordingHttp [] type)))) =
        [''type='' @ js_to_string type])"
  by (simp add: recorded_getByIds split_on_free del: js_to_string.simps)

theorem getByIds_empty_query_witness:
  "params (recorded (getByIds recordingHelper recordingHttp [] (JStr ''Template''))) =
     JStr ''type=Template''
   \<and> CHR ''&'' \<notin> set (js_to_string (JStr ''Template''))
   \<and> split_on CHR ''&''
        (query_string (params (recorded (getByIds recordingHelper recordingHttp []
           (JStr ''Template''))))) = [''type=Template'']"
  using getByIds_empty_query [of "JStr ''Template''"]
  by simp

text \<open>
  C9. \<^verbatim>\<open>getByIds\<close> never omits the type segment: for every sequence of ids and every
  type the query string ends with \<^verbatim>\<open>type=\<close> followed by the string coercion of the type,
  and when the type is not supplied (\<^verbatim>\<open>undefined\<close>) it ends with the literal text
  \<^verbatim>\<open>type=undefined\<close>.
\<close>

theorem getByIds_type_never_omitted:
  "suffix (''type='' @ js_to_string type)
     (query_string (params (recorded (getByIds recordingHelper recordingHttp ids type))))
   \<and> suffix ''type=undefined''
     (query_string (params (recorded (getByIds recordingHelper recordingHttp ids JUndefined))))"
proof -
  have "suffix (''type='' @ js_to_string t)
     (query_string (params (recorded (getByIds recordingHelper recordingHttp ids t))))" for t
    unfolding getByIds_query by (rule suffixI) (rule refl)
  from this [of type] this [of JUndefined] show ?thesis by simp
qed

subsection \<open>The requests of the other methods\<close>

text \<open>
  C2. For every id and every type, \<^verbatim>\<open>getById\<close> constructs a request with the action name
  \<^verbatim>\<open>GetById\<close> whose parameters are one object with exactly the properties \<^verbatim>\<open>id\<close> and
  \<^verbatim>\<open>type\<close>, holding the id and the type that were passed. When the type is not supplied
  the \<^verbatim>\<open>type\<close> property is empty: reading it gives \<^verbatim>\<open>undefined\<close>, JavaScript's absence
  of a value.
\<close>

theorem getById_request:
  "action (recorded (getById recordingHelper recordingHttp id' type)) = ''GetById''
   \<and> params (recorded (getById recordingHelper recordingHttp id' type)) =
       JArr [JObj [(''id'', id'), (''type'', type)]]
   \<and> param_names (params (recorded (getById recordingHelper recordingHttp id' type))) =
       [''id'', ''type'']
   \<and> param_value (params (recorded (getById recordingHelper recordingHttp id' type))) ''id'' = id'
   \<and> param_value (params (recorded (getById recordingHelper recordingHttp id' type))) ''type'' = type
   \<and> param_value (params (recorded (getById recordingHelper recordingHttp id' JUndefined))) ''type'' =
       JUndefined"
  by (simp add: recorded_getById param_names_def param_value_def del: js_to_string.simps)

text \<open>
  C3, as the claim states it, fails: \<^verbatim>\<open>getAll\<close> called with no type does not omit the
  type filter from the request parameters. The parameter array it passes to the URL
  builder contains a property named \<^verbatim>\<open>type\<close>.
\<close>

theorem getAll_type_not_omitted:
  "''type'' \<in> set (param_names (params (recorded (getAll recordingHelper recordingHttp JUndefined))))"
  by (simp add: recorded_getAll param_names_def)

text \<open>
  C3, amended. \<^verbatim>\<open>getAll\<close> called with no type (\<^verbatim>\<open>undefined\<close>) constructs a request with
  the action name \<^verbatim>\<open>GetAll\<close> whose parameters are the one object \<^verbatim>\<open>{type: undefined}\<close>:
  the \<^verbatim>\<open>type\<close> property is passed and holds no value.
\<close>

theorem getAll_undefined_request:
  "action (recorded (getAll recordingHelper recordingHttp JUndefined)) = ''GetAll''
   \<and> params (recorded (getAll recordingHelper recordingHttp JUndefined)) =
       JArr [JObj [(''type'', JUndefined)]]
   \<and> param_names (params (recorded (getAll recordingHelper recordingHttp JUndefined))) = [''type'']
   \<and> param_value (params (recorded (getAll recordingHelper recordingHttp JUndefined))) ''type'' =
       JUndefined"
  by (simp add: recorded_getAll param_names_def param_value_def)

text \<open>
  C4, as the claim states it, fails: \<^verbatim>\<open>search("news")\<close> does not leave the type filter
  out of its parameters. The parameter array it passes to the URL builder contains a
  property named \<^verbatim>\<open>type\<close>.
\<close>

theorem search_type_not_omitted:
  "''type'' \<in> set (param_names (params
      (recorded (search recordingHelper recordingHttp (JStr ''news'') JUndefined))))"
  by (simp add: recorded_search param_names_def)

text \<open>
  C4, amended. \<^verbatim>\<open>search("news")\<close> with the type omitted constructs a request with the
  action name \<^verbatim>\<open>SearchMedia\<close> whose parameters are, in order, the object
  \<^verbatim>\<open>{query: "news"}\<close> and the object \<^verbatim>\<open>{type: undefined}\<close>: the query is \<^verbatim>\<open>news\<close>, and
  the \<^verbatim>\<open>type\<close> property is passed and holds no value.
\<close>

theorem search_news_request:
  "action (recorded (search recordingHelper recordingHttp (JStr ''news'') JUndefined)) = ''SearchMedia''
   \<and> params (recorded (search recordingHelper recordingHttp (JStr ''news'') JUndefined)) =
       JArr [JObj [(''query'', JStr ''news'')], JObj [(''type'', JUndefined)]]
   \<and> param_names (params (recorded (search recordingHelper recordingHttp (JStr ''news'') JUndefined))) =
       [''query'', ''type'']
   \<and> param_value (params (recorded (search recordingHelper recordingHttp (JStr ''news'') JUndefined)))
         ''query'' = JStr ''news''
   \<and> param_value (params (recorded (search recordingHelper recordingHttp (JStr ''news'') JUndefined)))
         ''type'' = JUndefined"
  by (simp add: recorded_search param_names_def param_value_def)

text \<open>
  C6. For every id and every type, \<^verbatim>\<open>getAncestors\<close> constructs a request with the action
  name \<^verbatim>\<open>GetAncestors\<close> whose parameters are the object holding the id under \<^verbatim>\<open>id\<close>
  followed by the object holding the type under \<^verbatim>\<open>type\<close>, and its failure message is
  \<^verbatim>\<open>Failed to retreive ancestor data for id\<close> followed by the string coercion of the id,
  which it therefore contains.
\<close>

theorem getAncestors_request:
  "action (recorded (getAncestors recordingHelper recordingHttp id' type)) = ''GetAncestors''
   \<and> params (recorded (getAncestors recordingHelper recordingHttp id' type)) =
       JArr [JObj [(''id'', id')], JObj [(''type'', type)]]
   \<and> param_names (params (recorded (getAncestors recordingHelper recordingHttp id' type))) =
       [''id'', ''type'']
   \<and> param_value (params (recorded (getAncestors recordingHelper recordingHttp id' type))) ''id'' = id'
   \<and> param_value (params (recorded (getAncestors recordingHelper recordingHttp id' type))) ''type'' = type
   \<and> failureMessage (recorded (getAncestors recordingHelper recordingHttp id' type)) =
       ''Failed to retreive ancestor data for id '' @ js_to_string id'
   \<and> sublist (js_to_string id')
        (failureMessage (recorded (getAncestors recordingHelper recordingHttp id' type)))
   \<and> failureMessage (recorded (getAncestors recordingHelper recordingHttp (JNum 1234) type)) =
       ''Failed to retreive ancestor data for id 1234''
   \<and> sublist ''1234''
        (failureMessage (recorded (getAncestors recordingHelper recordingHttp (JNum 1234) type)))
   \<and> sublist ''-7''
        (failureMessage (recorded (getAncestors recordingHelper recordingHttp (JNum (- 7)) type)))
   \<and> sublist ''ca4249ed''
        (failureMessage (recorded (getAncestors recordingHelper recordingHttp
           (JStr ''ca4249ed'') type)))"
proof -
  have contains: "sublist (js_to_string i)
          (failureMessage (recorded (getAncestors recordingHelper recordingHttp i type)))" for i
    by (simp only: recorded_getAncestors request.simps sublist_append_leftI)
  have r1: "js_to_string (JNum 1234) = ''1234''"
    by (simp add: int_to_string_def nat_to_string.simps digit_char_def)
  have r2: "js_to_string (JNum (- 7)) = ''-7''"
    by (simp add: int_to_string_def nat_to_string.simps digit_char_def)
  have r3: "js_to_string (JStr ''ca4249ed'') = ''ca4249ed''"
    by simp
  have m: "failureMessage (recorded (getAncestors recordingHelper recordingHttp (JNum 1234) type)) =
       ''Failed to retreive ancestor data for id 1234''"
    by (simp add: recorded_getAncestors int_to_string_def nat_to_string.simps digit_char_def)
  have general:
    "action (recorded (getAncestors recordingHelper recordingHttp id' type)) = ''GetAncestors''
     \<and> params (recorded (getAncestors recordingHelper recordingHttp id' type)) =
         JArr [JObj [(''id'', id')], JObj [(''type'', type)]]
     \<and> param_names (params (recorded (getAncestors recordingHelper recordingHttp id' type))) =
         [''id'', ''type'']
     \<and> param_value (params (recorded (getAncestors recordingHelper recordingHttp id' type))) ''id'' = id'
     \<and> param_value (params (recorded (getAncestors recordingHelper recordingHttp id' type))) ''type'' = type
     \<and> failureMessage (recorded (getAncestors recordingHelper recordingHttp id' type)) =
         ''Failed to retreive ancestor data for id '' @ js_to_string id'"
    by (simp add: recorded_getAncestors param_names_def param_value_def del: js_to_string.simps)
  from general contains [of id'] m contains [of "JNum 1234", unfolded r1]
    contains [of "JNum (- 7)", unfolded r2] contains [of "JStr ''ca4249ed''", unfolded r3]
  show ?thesis by blast
qed

theorem getAncestors_request_witness:
  "action (recorded (getAncestors recordingHelper recordingHttp (JNum 1234) (JStr ''Document''))) =
     ''GetAncestors''
   \<and> params (recorded (getAncestors recordingHelper recordingHttp (JNum 1234) (JStr ''Document''))) =
       JArr [JObj [(''id'', JNum 1234)], JObj [(''type'', JStr ''Document'')]]
   \<and> failureMessage (recorded (getAncestors recordingHelper recordingHttp (JNum 1234)
         (JStr ''Document''))) = ''Failed to retreive ancestor data for id 1234''
   \<and> sublist ''1234'' ''Failed to retreive ancestor data for id 1234''"
proof -
  note t = getAncestors_request [of "JNum 1234" "JStr ''Document''"]
  have a: "action (recorded (getAncestors recordingHelper recordingHttp (JNum 1234)
         (JStr ''Document''))) = ''GetAncestors''"
    using t by blast
  have p: "params (recorded (getAncestors recordingHelper recordingHttp (JNum 1234)
         (JStr ''Document''))) = JArr [JObj [(''id'', JNum 1234)], JObj [(''type'', JStr ''Document'')]]"
    using t by blast
  have m: "failureMessage (recorded (getAncestors recordingHelper recordingHttp (JNum 1234)
         (JStr ''Document''))) = ''Failed to retreive ancestor data for id 1234''"
    using t by blast
  have "sublist ''1234'' (failureMessage (recorded (getAncestors recordingHelper recordingHttp
         (JNum 1234) (JStr ''Document''))))"
    using t by blast
  then have s: "sublist ''1234'' ''Failed to retreive ancestor data for id 1234''"
    unfolding m .
  from a p m s show ?thesis by blast
qed

text \<open>
  C10. Each of the six methods, for all its arguments, passes the literal
  \<^verbatim>\<open>entityApiBaseUrl\<close> as the first argument of the URL builder, and uses no other base
  URL key: the request it constructs has that key, and the keys it asks the URL builder
  for, added to any earlier ones, are that one key and nothing else.
\<close>

theorem base_url_key:
  "baseUrlKey (recorded (getById recordingHelper recordingHttp id' type)) = ''entityApiBaseUrl''
   \<and> baseUrlKey (recorded (getByIds recordingHelper recordingHttp ids type)) = ''entityApiBaseUrl''
   \<and> baseUrlKey (recorded (getAll recordingHelper recordingHttp type)) = ''entityApiBaseUrl''
   \<and> baseUrlKey (recorded (getAncestors recordingHelper recordingHttp id' type)) = ''entityApiBaseUrl''
   \<and> baseUrlKey (recorded (getChildren recordingHelper recordingHttp id' type)) = ''entityApiBaseUrl''
   \<and> baseUrlKey (recorded (search recordingHelper recordingHttp query type)) = ''entityApiBaseUrl''
   \<and> snd (getById keyLoggingHelper silentHttp id' type keys) = keys @ [''entityApiBaseUrl'']
   \<and> snd (getByIds keyLoggingHelper silentHttp ids type keys) = keys @ [''entityApiBaseUrl'']
   \<and> snd (getAll keyLoggingHelper silentHttp type keys) = keys @ [''entityApiBaseUrl'']
   \<and> snd (getAncestors keyLoggingHelper silentHttp id' type keys) = keys @ [''entityApiBaseUrl'']
   \<and> snd (getChildren keyLoggingHelper silentHttp id' type keys) = keys @ [''entityApiBaseUrl'']
   \<and> snd (search keyLoggingHelper silentHttp query type keys) = keys @ [''entityApiBaseUrl'']"
  by (simp only: recorded_getById recorded_getByIds recorded_getAll recorded_getAncestors
        recorded_getChildren recorded_search getById_issue getByIds_issue getAll_issue
        getAncestors_issue getChildren_issue search_issue recorded_issue issue_keyLogging
        request.simps simp_thms)

subsection \<open>Failure messages\<close>

text \<open>
  C5. With the promise of the spec, for each of the six methods, every URL builder, every
  HTTP service and every world: when the HTTP call that the invocation makes fails, the
  promise the method returns is rejected with the method's failure message and the
  detail of the failure, and the message contains the string coercion of the caller's
  context: the id for \<^verbatim>\<open>getById\<close>, \<^verbatim>\<open>getAncestors\<close> and \<^verbatim>\<open>getChildren\<close>, the array of ids
  for \<^verbatim>\<open>getByIds\<close>, the type for \<^verbatim>\<open>getAll\<close>, the query for \<^verbatim>\<open>search\<close>. Only the one
  call of the invocation is assumed to fail: the service may succeed on other URLs and in
  other worlds.
\<close>

theorem transport_failure_message:
  "(httpOutcome (specHelper urlBuilder) http ''entityApiBaseUrl'' ''GetById''
        (JArr [JObj [(''id'', id'), (''type'', type)]]) w = HttpFailure detail \<longrightarrow>
      fst (getById (specHelper urlBuilder) http id' type w) =
        Rejected (''Failed to retreive entity data for id '' @ js_to_string id') detail
      \<and> rejected_with (fst (getById (specHelper urlBuilder) http id' type w)) (js_to_string id'))
   \<and> (httpOutcome (specHelper urlBuilder) http ''entityApiBaseUrl'' ''GetByIds''
        (JStr (concat (map (\<lambda>item. ''ids='' @ js_to_string item @ ''&'') ids)
               @ ''type='' @ js_to_string type)) w = HttpFailure detail \<longrightarrow>
      fst (getByIds (specHelper urlBuilder) http ids type w) =
        Rejected (''Failed to retreive entity data for ids '' @ js_to_string (JArr ids)) detail
      \<and> rejected_with (fst (getByIds (specHelper urlBuilder) http ids type w))
           (js_to_string (JArr ids)))
   \<and> (httpOutcome (specHelper urlBuilder) http ''entityApiBaseUrl'' ''GetAll''
        (JArr [JObj [(''type'', type)]]) w = HttpFailure detail \<longrightarrow>
      fst (getAll (specHelper urlBuilder) http type w) =
        Rejected (''Failed to retreive entity data for type '' @ js_to_string type) detail
      \<and> rejected_with (fst (getAll (specHelper urlBuilder) http type w)) (js_to_string type))
   \<and> (httpOutcome (specHelper urlBuilder) http ''entityApiBaseUrl'' ''GetAncestors''
        (JArr [JObj [(''id'', id')], JObj [(''type'', type)]]) w = HttpFailure detail \<longrightarrow>
      fst (getAncestors (specHelper urlBuilder) http id' type w) =
        Rejected (''Failed to retreive ancestor data for id '' @ js_to_string id') detail
      \<and> rejected_with (fst (getAncestors (specHelper urlBuilder) http id' type w)) (js_to_string id'))
   \<and> (httpOutcome (specHelper urlBuilder) http ''entityApiBaseUrl'' ''GetChildren''
        (JArr [JObj [(''id'', id')], JObj [(''type'', type)]]) w = HttpFailure detail \<longrightarrow>
      fst (getChildren (specHelper urlBuilder) http id' type w) =
        Rejected (''Failed to retreive child data for id '' @ js_to_string id') detail
      \<and> rejected_with (fst (getChildren (specHelper urlBuilder) http id' type w)) (js_to_string id'))
   \<and> (httpOutcome (specHelper urlBuilder) http ''entityApiBaseUrl'' ''SearchMedia''
        (JArr [JObj [(''query'', query)], JObj [(''type'', type)]]) w = HttpFailure detail \<longrightarrow>
      fst (search (specHelper urlBuilder) http query type w) =
        Rejected (''Failed to retreive entity data for query '' @ js_to_string query) detail
      \<and> rejected_with (fst (search (specHelper urlBuilder) http query type w)) (js_to_string query))"
  unfolding getById_issue getByIds_issue getAll_issue getAncestors_issue getChildren_issue
    search_issue
  by (intro conjI impI issue_rejected issue_rejected_with; assumption)

theorem transport_failure_message_witness:
  "httpOutcome (specHelper plainUrl) offlineHttp ''entityApiBaseUrl'' ''GetById''
      (JArr [JObj [(''id'', JNum 1234), (''type'', JStr ''Media'')]]) False =
     HttpFailure ''network down''
   \<and> fst (getById (specHelper plainUrl) offlineHttp (JNum 1234) (JStr ''Media'') False) =
       Rejected ''Failed to retreive entity data for id 1234'' ''network down''
   \<and> rejected_with (fst (getById (specHelper plainUrl) offlineHttp (JNum 1234) (JStr ''Media'') False))
       ''1234''
   \<and> fst (getByIds (specHelper plainUrl) offlineHttp [JNum 12, JNum 34] (JStr ''Media'') False) =
       Rejected ''Failed to retreive entity data for ids 12,34'' ''network down''
   \<and> rejected_with (fst (getByIds (specHelper plainUrl) offlineHttp [JNum 12, JNum 34]
       (JStr ''Media'') False)) ''12,34''
   \<and> fst (getAll (specHelper plainUrl) offlineHttp (JStr ''Media'') False) =
       Rejected ''Failed to retreive entity data for type Media'' ''network down''
   \<and> rejected_with (fst (getAll (specHelper plainUrl) offlineHttp (JStr ''Media'') False)) ''Media''
   \<and> fst (getAncestors (specHelper plainUrl) offlineHttp (JNum 1234) (JStr ''Media'') False) =
       Rejected ''Failed to retreive ancestor data for id 1234'' ''network down''
   \<and> rejected_with (fst (getAncestors (specHelper plainUrl) offlineHttp (JNum 1234)
       (JStr ''Media'') False)) ''1234''
   \<and> fst (getChildren (specHelper plainUrl) offlineHttp (JNum 1234) (JStr ''Media'') False) =
       Rejected ''Failed to retreive child data for id 1234'' ''network down''
   \<and> rejected_with (fst (getChildren (specHelper plainUrl) offlineHttp (JNum 1234)
       (JStr ''Media'') False)) ''1234''
   \<and> fst (search (specHelper plainUrl) offlineHttp (JStr ''news'') (JStr ''Media'') False) =
       Rejected ''Failed to retreive entity data for query news'' ''network down''
   \<and> rejected_with (fst (search (specHelper plainUrl) offlineHttp (JStr ''news'')
       (JStr ''Media'') False)) ''news''
   \<and> fst (getById (specHelper plainUrl) offlineHttp (JNum 1234) (JStr ''Media'') True) =
       Resolved ''[]''
   \<and> httpOutcome (specHelper plainUrl) brokenChildrenHttp ''entityApiBaseUrl'' ''GetChildren''
      (JArr [JObj [(''id'', JNum 1234)], JObj [(''type'', JStr ''Media'')]]) () =
     HttpFailure ''500 Internal Server Error''
   \<and> fst (getChildren (specHelper plainUrl) brokenChildrenHttp (JNum 1234) (JStr ''Media'') ()) =
       Rejected ''Failed to retreive child data for id 1234'' ''500 Internal Server Error''
   \<and> rejected_with (fst (getChildren (specHelper plainUrl) brokenChildrenHttp (JNum 1234)
       (JStr ''Media'') ())) ''1234''
   \<and> fst (getAncestors (specHelper plainUrl) brokenChildrenHttp (JNum 1234) (JStr ''Media'') ()) =
       Resolved ''[]''"
proof -
  have down: "httpOutcome (specHelper plainUrl) offlineHttp k a p False =
                HttpFailure ''network down''" for k a p
    by (simp add: httpOutcome_def specHelper_def plainUrl_def offlineHttp_def)
  have broken: "httpOutcome (specHelper plainUrl) brokenChildrenHttp
                  ''entityApiBaseUrl'' ''GetChildren'' p () =
                HttpFailure ''500 Internal Server Error''" for p
    by (simp add: httpOutcome_def specHelper_def plainUrl_def brokenChildrenHttp_def)
  have up: "fst (getById (specHelper plainUrl) offlineHttp (JNum 1234) (JStr ''Media'') True) =
              Resolved ''[]''"
    by (simp add: getById_def specHelper_def plainUrl_def offlineHttp_def specResourcePromise_def)
  have other: "fst (getAncestors (specHelper plainUrl) brokenChildrenHttp (JNum 1234)
                 (JStr ''Media'') ()) = Resolved ''[]''"
    by (simp add: getAncestors_def specHelper_def plainUrl_def brokenChildrenHttp_def
          specResourcePromise_def)
  have r1: "js_to_string (JNum 1234) = ''1234''"
    by (simp add: int_to_string_def nat_to_string.simps digit_char_def)
  have r2: "js_to_string (JArr [JNum 12, JNum 34]) = ''12,34''"
    by (simp add: int_to_string_def nat_to_string.simps digit_char_def)
  have r3: "js_to_string (JStr ''Media'') = ''Media''" "js_to_string (JStr ''news'') = ''news''"
    by simp_all
  note t1 = transport_failure_message [where urlBuilder = plainUrl and http = offlineHttp
        and w = False and detail = "''network down''" and id' = "JNum 1234"
        and type = "JStr ''Media''" and ids = "[JNum 12, JNum 34]" and query = "JStr ''news''",
        simplified down r1 r2 r3 simp_thms append.simps]
  note t2 = transport_failure_message [where urlBuilder = plainUrl and http = brokenChildrenHttp
        and w = "()" and detail = "''500 Internal Server Error''" and id' = "JNum 1234"
        and type = "JStr ''Media''" and ids = "[JNum 12, JNum 34]" and query = "JStr ''news''",
        THEN conjunct2, THEN conjunct2, THEN conjunct2, THEN conjunct2, THEN conjunct1,
        simplified broken r1 r3 simp_thms append.simps]
  from t1 t2 down broken up other show ?thesis
    by blast
qed

subsection \<open>Request construction depends on the arguments alone\<close>

text \<open>
  C7. For each of the six methods and all arguments: whatever the collaborators are and
  whatever the world is when the method is invoked, the method is the shared calling
  pattern at one request, the request that the recording collaborators record for these
  arguments. So the action name, the parameters and the failure message depend on the
  arguments alone, and the method reads and changes the world only through its three
  collaborator calls. Run against the recording collaborators, two invocations with the
  same arguments in any two worlds construct the same request, and each leaves its world
  as it found it.
\<close>

theorem request_construction_independent:
  "(\<forall>h http w. getById h http id' type w =
      issue h http (recorded (getById recordingHelper recordingHttp id' type)) w)
   \<and> same_request_in_any_world (getById recordingHelper recordingHttp id' type)
   \<and> (\<forall>h http w. getByIds h http ids type w =
      issue h http (recorded (getByIds recordingHelper recordingHttp ids type)) w)
   \<and> same_request_in_any_world (getByIds recordingHelper recordingHttp ids type)
   \<and> (\<forall>h http w. getAll h http type w =
      issue h http (recorded (getAll recordingHelper recordingHttp type)) w)
   \<and> same_request_in_any_world (getAll recordingHelper recordingHttp type)
   \<and> (\<forall>h http w. getAncestors h http id' type w =
      issue h http (recorded (getAncestors recordingHelper recordingHttp id' type)) w)
   \<and> same_request_in_any_world (getAncestors recordingHelper recordingHttp id' type)
   \<and> (\<forall>h http w. getChildren h http id' type w =
      issue h http (recorded (getChildren recordingHelper recordingHttp id' type)) w)
   \<and> same_request_in_any_world (getChildren recordingHelper recordingHttp id' type)
   \<and> (\<forall>h http w. search h http query type w =
      issue h http (recorded (search recordingHelper recordingHttp query type)) w)
   \<and> same_request_in_any_world (search recordingHelper recordingHttp query type)"
  by (simp only: getById_issue getByIds_issue getAll_issue getAncestors_issue getChildren_issue
        search_issue recorded_issue same_request_issue simp_thms)

end
